theory Spec2Isabelle
  imports Complex_Main "HOL-Library.Multiset"
begin

section \<open>Batches and iterators as the training loop sees them\<close>

text \<open>
  The notebooks read two attributes of a batch: \<open>batch.text\<close> (here \<open>text_ids\<close>: the
  token ids, one row per example; the field is built with \<open>batch_first=True\<close>) and
  \<open>batch.label\<close> (one label per example).
\<close>

record batch =
  text_ids :: "nat list list"
  label :: "nat list"

text \<open>
  The iterator handed to \<open>train\<close> and \<open>evaluate\<close> is used in two ways only:
  \<open>for batch in iterator\<close> (one pass; the iterators are built with \<open>repeat=False\<close>) and
  \<open>len(iterator)\<close>.  Both are fields of the model: the batches one pass yields, and
  the number \<open>len\<close> reports.
\<close>

record iterator =
  batches :: "batch list"
  iter_len :: nat

section \<open>Tensors and their shapes\<close>

text \<open>
  What the loops can raise: the division by \<open>len(iterator)\<close>, and the errors of the
  framework on a tensor of the wrong shape (a dimension out of range in \<open>squeeze\<close>, a
  size that the loss refuses, an index out of range, a size that does not fit).
\<close>

datatype py_error =
  ZeroDivisionError | DimensionOutOfRange | ValueError | IndexError | RuntimeError

text \<open>
  A tensor of floating-point numbers, of rank 0 to 3, as nested lists; floating-point
  numbers are read as reals.  (A tensor with a dimension of size 0 does not occur: an
  iterator yields no empty batch.)
\<close>

datatype tensor =
  T0 real | T1 "real list" | T2 "real list list" | T3 "real list list list"

text \<open>
  \<open>t.squeeze(d)\<close>: dimension \<open>d\<close> is removed when its size is 1 and the tensor is returned
  as it is when its size is not 1; a \<open>d\<close> that the rank of the tensor does not have is a
  dimension out of range.  (A tensor of rank 0 accepts \<open>d = 0\<close>.)
\<close>

fun squeeze :: "nat \<Rightarrow> tensor \<Rightarrow> py_error + tensor" where
  "squeeze d (T0 x) = (if d = 0 then Inr (T0 x) else Inl DimensionOutOfRange)"
| "squeeze d (T1 xs) =
     (if d = 0 then Inr (case xs of [x] \<Rightarrow> T0 x | _ \<Rightarrow> T1 xs)
      else Inl DimensionOutOfRange)"
| "squeeze d (T2 rows) =
     (if d = 0 then Inr (case rows of [r] \<Rightarrow> T1 r | _ \<Rightarrow> T2 rows)
      else if d = 1 then
        Inr (if rows \<noteq> [] \<and> list_all (\<lambda>r. length r = 1) rows then T1 (concat rows)
             else T2 rows)
      else Inl DimensionOutOfRange)"
| "squeeze d (T3 ms) =
     (if d = 0 then Inr (case ms of [m] \<Rightarrow> T2 m | _ \<Rightarrow> T3 ms)
      else if d = 1 then
        Inr (if ms \<noteq> [] \<and> list_all (\<lambda>m. length m = 1) ms then T2 (concat ms)
             else T3 ms)
      else if d = 2 then
        Inr (if ms \<noteq> [] \<and> list_all (\<lambda>m. m \<noteq> [] \<and> list_all (\<lambda>r. length r = 1) m) ms
             then T2 (map concat ms) else T3 ms)
      else Inl DimensionOutOfRange)"

section \<open>The two models\<close>

text \<open>
  The layers belong to the framework and are parameters here.  \<open>embedding\<close> is
  \<open>self.embedding\<close> (batch by sequence to batch by sequence by embedding; the framework
  raises on an id the table does not have).  \<open>recurrent\<close> is \<open>self.rnn\<close> or \<open>self.lstm\<close>:
  it sees the mode of the model and the random generator (the dropout between the layers
  of the LSTM is active in training mode only) and gives the output and the final hidden
  state, of shape (layers times directions) by batch by hidden size; the cell state of
  the LSTM is not used.  \<open>dropout\<close> is \<open>self.dropout\<close>, on a matrix.  \<open>linear_out\<close> is
  \<open>self.linear_out\<close> on one vector of features.  The layers read the parameters \<open>'p\<close>.
\<close>

record ('p, 'r) layers =
  embedding :: "'p \<Rightarrow> nat list list \<Rightarrow> py_error + real list list list"
  recurrent ::
    "bool \<Rightarrow> 'p \<Rightarrow> 'r \<Rightarrow> real list list list
       \<Rightarrow> (real list list list \<times> real list list list) \<times> 'r"
  dropout :: "bool \<Rightarrow> 'r \<Rightarrow> real list list \<Rightarrow> real list list \<times> 'r"
  linear_out :: "'p \<Rightarrow> real list \<Rightarrow> real list"

text \<open>
  A linear layer acts on the last dimension of its input, whatever the rank; it does not
  take a tensor of rank 0.
\<close>

fun apply_linear :: "(real list \<Rightarrow> real list) \<Rightarrow> tensor \<Rightarrow> py_error + tensor" where
  "apply_linear f (T0 x) = Inl RuntimeError"
| "apply_linear f (T1 v) = Inr (T1 (f v))"
| "apply_linear f (T2 rows) = Inr (T2 (map f rows))"
| "apply_linear f (T3 ms) = Inr (T3 (map (map f) ms))"

text \<open>
  \<open>torch.cat((a, b), dim=1)\<close> on two matrices: row by row; the numbers of rows must
  agree.
\<close>

definition cat1 :: "real list list \<Rightarrow> real list list \<Rightarrow> py_error + real list list" where
  "cat1 a b = (if length a = length b then Inr (map2 (@) a b) else Inl RuntimeError)"

text \<open>
  A model, called on \<open>batch.text\<close>: it sees its mode, its parameters and the random
  generator, and gives its output, or the error it raises, and the new generator state.
\<close>

type_synonym ('p, 'r) model =
  "bool \<Rightarrow> 'p \<Rightarrow> 'r \<Rightarrow> nat list list \<Rightarrow> (py_error + tensor) \<times> 'r"

text \<open>
  \<open>RNN.forward\<close>:
  \<^verbatim>\<open>embedded = self.embedding(inputs)\<close>,
  \<^verbatim>\<open>output, hidden = self.rnn(embedded)\<close>,
  \<^verbatim>\<open>return self.linear_out(hidden.squeeze(0))\<close>.
\<close>

definition RNN_forward :: "('p, 'r) layers \<Rightarrow> ('p, 'r) model" where
  "RNN_forward L m p r inputs =
     (case embedding L p inputs of
        Inl e \<Rightarrow> (Inl e, r)
      | Inr embedded \<Rightarrow>
          (case recurrent L m p r embedded of
             ((output, hidden), r') \<Rightarrow>
               (case squeeze 0 (T3 hidden) of
                  Inl e \<Rightarrow> (Inl e, r')
                | Inr h \<Rightarrow> (apply_linear (linear_out L p) h, r'))))"

text \<open>
  \<open>LSTM.forward\<close>:
  \<^verbatim>\<open>embedded = self.embedding(inputs)\<close>,
  \<^verbatim>\<open>output, (hidden, cell) = self.lstm(embedded)\<close>,
  \<^verbatim>\<open>hidden = self.dropout(torch.cat((hidden[-2,:,:], hidden[-1,:,:]), dim=1))\<close>,
  \<^verbatim>\<open>return self.linear_out(hidden.squeeze(0))\<close>.
  After the concatenation \<open>hidden\<close> is a matrix, batch by twice the hidden size, so
  \<open>squeeze(0)\<close> removes the batch dimension when the batch holds one example.
\<close>

definition LSTM_forward :: "('p, 'r) layers \<Rightarrow> ('p, 'r) model" where
  "LSTM_forward L m p r inputs =
     (case embedding L p inputs of
        Inl e \<Rightarrow> (Inl e, r)
      | Inr embedded \<Rightarrow>
          (case recurrent L m p r embedded of
             ((output, hidden), r1) \<Rightarrow>
               (if length hidden < 2 then (Inl IndexError, r1)
                else
                  (case cat1 (hidden ! (length hidden - 2)) (hidden ! (length hidden - 1)) of
                     Inl e \<Rightarrow> (Inl e, r1)
                   | Inr c \<Rightarrow>
                       (case dropout L m r1 c of
                          (h, r2) \<Rightarrow>
                            (case squeeze 0 (T2 h) of
                               Inl e \<Rightarrow> (Inl e, r2)
                             | Inr h' \<Rightarrow> (apply_linear (linear_out L p) h', r2)))))))"

section \<open>The training and evaluation loops\<close>

text \<open>
  The loss, automatic differentiation and the optimiser belong to the framework; they
  are parameters of the model.  \<open>criterion\<close> is the value of the loss on predictions and
  labels of the same size, \<open>backward\<close> is \<open>loss.backward()\<close>: it adds the gradient of the
  batch loss to the gradient buffers.
\<close>

record ('p, 'g, 'o, 'r) torch =
  criterion :: "real list \<Rightarrow> real list \<Rightarrow> real"
  backward :: "bool \<Rightarrow> 'p \<Rightarrow> 'r \<Rightarrow> batch \<Rightarrow> 'g \<Rightarrow> 'g"
  zero_grad :: "'g \<Rightarrow> 'g"
  opt_step :: "'o \<Rightarrow> 'p \<Rightarrow> 'g \<Rightarrow> 'p \<times> 'o"
  sigmoid :: "real \<Rightarrow> real"
  round_t :: "real \<Rightarrow> real"

text \<open>
  What the two functions can change: the parameters of the model (the embedding weights
  among them), their gradient buffers, the state of the optimiser, the random generator
  and the training/evaluation mode of the model.
\<close>

record ('p, 'g, 'o, 'r) session =
  params :: 'p
  grads :: 'g
  opt_state :: 'o
  rng :: 'r
  training :: bool

text \<open>
  \<open>predictions = model(batch.text).squeeze(1)\<close>, given what the call of the model gave.
\<close>

definition squeezed :: "py_error + tensor \<Rightarrow> py_error + tensor" where
  "squeezed out = (case out of Inl e \<Rightarrow> Inl e | Inr t \<Rightarrow> squeeze 1 t)"

text \<open>
  The loss of the notebooks, \<open>nn.BCEWithLogitsLoss()\<close>, refuses predictions whose size is
  not the size of the labels; the labels of a batch are a vector.
\<close>

definition same_size :: "tensor \<Rightarrow> real list \<Rightarrow> py_error + real list" where
  "same_size predictions y =
     (case predictions of
        T1 preds \<Rightarrow> if length preds = length y then Inr preds else Inl ValueError
      | _ \<Rightarrow> Inl ValueError)"

text \<open>
  \<open>binary_accuracy\<close>: the share of the predictions that, passed through the sigmoid and
  rounded, equal the label.
\<close>

definition binary_accuracy :: "('p, 'g, 'o, 'r) torch \<Rightarrow> real list \<Rightarrow> real list \<Rightarrow> real" where
  "binary_accuracy T preds y =
     (let rounded_preds = map (\<lambda>p. round_t T (sigmoid T p)) preds;
          correct = map2 (\<lambda>r t. if r = t then 1 else 0) rounded_preds y;
          acc = sum_list correct / real (length correct)
      in acc)"

text \<open>
  The body of the loop of \<open>train\<close>: the loss and accuracy of the batch, or the error the
  body raises, and the state it leaves.  The gradients are zeroed before the model is
  called; \<open>.squeeze(1)\<close> and the loss come before the backward pass and the step of the
  optimiser.
\<close>

definition train_step ::
  "('p, 'g, 'o, 'r) torch \<Rightarrow> ('p, 'r) model \<Rightarrow> ('p, 'g, 'o, 'r) session \<Rightarrow> batch
     \<Rightarrow> (py_error + real \<times> real) \<times> ('p, 'g, 'o, 'r) session" where
  "train_step T M s b =
     (let g0 = zero_grad T (grads s);
          (out, r') = M (training s) (params s) (rng s) (text_ids b);
          s1 = s\<lparr>grads := g0, rng := r'\<rparr>
      in case squeezed out of
           Inl e \<Rightarrow> (Inl e, s1)
         | Inr predictions \<Rightarrow>
             (case same_size predictions (map real (label b)) of
                Inl e \<Rightarrow> (Inl e, s1)
              | Inr preds \<Rightarrow>
                  (let loss = criterion T preds (map real (label b));
                       acc = binary_accuracy T preds (map real (label b));
                       g1 = backward T (training s) (params s) (rng s) b g0;
                       (p', o') = opt_step T (opt_state s) (params s) g1
                   in (Inr (loss, acc), s1\<lparr>params := p', grads := g1, opt_state := o'\<rparr>))))"

text \<open>The body of the loop of \<open>evaluate\<close>: no gradient, no optimiser step.\<close>

definition eval_step ::
  "('p, 'g, 'o, 'r) torch \<Rightarrow> ('p, 'r) model \<Rightarrow> ('p, 'g, 'o, 'r) session \<Rightarrow> batch
     \<Rightarrow> (py_error + real \<times> real) \<times> ('p, 'g, 'o, 'r) session" where
  "eval_step T M s b =
     (let (out, r') = M (training s) (params s) (rng s) (text_ids b);
          s1 = s\<lparr>rng := r'\<rparr>
      in case squeezed out of
           Inl e \<Rightarrow> (Inl e, s1)
         | Inr predictions \<Rightarrow>
             (case same_size predictions (map real (label b)) of
                Inl e \<Rightarrow> (Inl e, s1)
              | Inr preds \<Rightarrow>
                  (let loss = criterion T preds (map real (label b));
                       acc = binary_accuracy T preds (map real (label b))
                   in (Inr (loss, acc), s1))))"

text \<open>
  \<open>for batch in iterator: ...; epoch_loss += loss.item(); epoch_acc += acc.item()\<close>,
  for either body.  An error raised in the body ends the loop.
\<close>

fun epoch_loop ::
  "(('p, 'g, 'o, 'r) session \<Rightarrow> batch
       \<Rightarrow> (py_error + real \<times> real) \<times> ('p, 'g, 'o, 'r) session)
     \<Rightarrow> batch list \<Rightarrow> real \<Rightarrow> real \<Rightarrow> ('p, 'g, 'o, 'r) session
     \<Rightarrow> (py_error + real \<times> real) \<times> ('p, 'g, 'o, 'r) session" where
  "epoch_loop step [] epoch_loss epoch_acc s = (Inr (epoch_loss, epoch_acc), s)"
| "epoch_loop step (b # bs) epoch_loss epoch_acc s =
     (case step s b of
        (Inl e, s') \<Rightarrow> (Inl e, s')
      | (Inr (loss, acc), s') \<Rightarrow>
          epoch_loop step bs (epoch_loss + loss) (epoch_acc + acc) s')"

text \<open>
  \<open>return epoch_loss / len(iterator), epoch_acc / len(iterator)\<close>: Python's \<open>/\<close> raises
  \<open>ZeroDivisionError\<close> when \<open>len(iterator)\<close> is 0; the first quotient is evaluated first.
\<close>

definition epoch_result :: "real \<Rightarrow> real \<Rightarrow> nat \<Rightarrow> py_error + real \<times> real" where
  "epoch_result epoch_loss epoch_acc n =
     (if n = 0 then Inl ZeroDivisionError
      else Inr (epoch_loss / real n, epoch_acc / real n))"

definition train ::
  "('p, 'g, 'o, 'r) torch \<Rightarrow> ('p, 'r) model \<Rightarrow> iterator \<Rightarrow> ('p, 'g, 'o, 'r) session
     \<Rightarrow> (py_error + real \<times> real) \<times> ('p, 'g, 'o, 'r) session" where
  "train T M it s =
     (case epoch_loop (train_step T M) (batches it) 0 0 (s\<lparr>training := True\<rparr>) of
        (Inl e, s') \<Rightarrow> (Inl e, s')
      | (Inr (epoch_loss, epoch_acc), s') \<Rightarrow>
          (epoch_result epoch_loss epoch_acc (iter_len it), s'))"

definition evaluate ::
  "('p, 'g, 'o, 'r) torch \<Rightarrow> ('p, 'r) model \<Rightarrow> iterator \<Rightarrow> ('p, 'g, 'o, 'r) session
     \<Rightarrow> (py_error + real \<times> real) \<times> ('p, 'g, 'o, 'r) session" where
  "evaluate T M it s =
     (case epoch_loop (eval_step T M) (batches it) 0 0 (s\<lparr>training := False\<rparr>) of
        (Inl e, s') \<Rightarrow> (Inl e, s')
      | (Inr (epoch_loss, epoch_acc), s') \<Rightarrow>
          (epoch_result epoch_loss epoch_acc (iter_len it), s'))"

text \<open>
  The loss and the accuracy of one batch in a given state: what the loss and
  \<open>binary_accuracy\<close> give on the predictions of the model in that state, or the error
  that the model, \<open>.squeeze(1)\<close> or the loss raises there.
\<close>

definition batch_metrics ::
  "('p, 'g, 'o, 'r) torch \<Rightarrow> ('p, 'r) model \<Rightarrow> ('p, 'g, 'o, 'r) session \<Rightarrow> batch
     \<Rightarrow> py_error + real \<times> real" where
  "batch_metrics T M s b =
     (case squeezed (fst (M (training s) (params s) (rng s) (text_ids b))) of
        Inl e \<Rightarrow> Inl e
      | Inr predictions \<Rightarrow>
          (case same_size predictions (map real (label b)) of
             Inl e \<Rightarrow> Inl e
           | Inr preds \<Rightarrow>
               Inr (criterion T preds (map real (label b)),
                    binary_accuracy T preds (map real (label b)))))"

text \<open>
  What the body of the loop gives on each batch of a pass, in the order of the pass, each
  in the state the loop has reached when it comes to that batch, up to and with the first
  error.
\<close>

fun per_batch ::
  "('p, 'g, 'o, 'r) torch \<Rightarrow> ('p, 'r) model
     \<Rightarrow> (('p, 'g, 'o, 'r) session \<Rightarrow> batch
           \<Rightarrow> (py_error + real \<times> real) \<times> ('p, 'g, 'o, 'r) session)
     \<Rightarrow> ('p, 'g, 'o, 'r) session \<Rightarrow> batch list \<Rightarrow> (py_error + real \<times> real) list" where
  "per_batch T M step s [] = []"
| "per_batch T M step s (b # bs) =
     (case batch_metrics T M s b of
        Inl e \<Rightarrow> [Inl e]
      | Inr m \<Rightarrow> Inr m # per_batch T M step (snd (step s b)) bs)"

text \<open>The first error of such a list, if it has one, and the values before it.\<close>

fun first_error :: "(py_error + 'a) list \<Rightarrow> py_error option" where
  "first_error [] = None"
| "first_error (Inl e # xs) = Some e"
| "first_error (Inr a # xs) = first_error xs"

fun values_of :: "(py_error + 'a) list \<Rightarrow> 'a list" where
  "values_of [] = []"
| "values_of (Inl e # xs) = []"
| "values_of (Inr a # xs) = a # values_of xs"

definition mean :: "real list \<Rightarrow> real" where
  "mean xs = sum_list xs / real (length xs)"

section \<open>The bucketed batch sampler\<close>

text \<open>
  The notebooks obtain their iterators from \<open>data.BucketIterator.splits\<close> with
  \<open>batch_size=BATCH_SIZE\<close>, \<open>sort_key=lambda x: len(x.text)\<close> and \<open>repeat=False\<close>.  The
  iterator class is not defined in the repository; the sampler below follows the
  specification of the repository (its data model, component design and error handling).
  An example is a pair of a token-id sequence and a label.
\<close>

type_synonym example = "nat list \<times> nat"

text \<open>The sort key of the call site, \<open>lambda x: len(x.text)\<close>.\<close>

definition text_len :: "example \<Rightarrow> nat" where
  "text_len x = length (fst x)"

text \<open>
  Modelled from the spec: the errors of the sampler, whose code is not in the
  repository.  A configuration error is reported at construction; a data error names the
  examples (by position) whose length key is not positive.
\<close>

datatype sampler_error = ConfigError | DataError "nat list"

text \<open>
  Modelled from the spec: the sampler object, whose class is not in the repository.  It
  holds the examples (read-only), the batch size \<open>B\<close>, the chunk multiplier \<open>K\<close>, the
  \<open>PAD\<close> id and its own shuffle state.
\<close>

record 'r sampler =
  examples :: "example list"
  batch_size :: nat
  chunk_mult :: nat
  pad :: nat
  shuffle_state :: 'r

text \<open>
  Modelled from the spec: the check of the length key, which the repository does not
  contain.  The positions of the examples whose length key is zero (a length is never
  negative).
\<close>

definition bad_examples :: "example list \<Rightarrow> nat list" where
  "bad_examples exs = filter (\<lambda>i. text_len (exs ! i) = 0) [0..<length exs]"

text \<open>
  Modelled from the spec: the construction of the sampler, which the repository does not
  contain.  A non-positive batch size and an empty vocabulary are configuration errors,
  reported here and not at the first batch; an example of length zero is a data error.
  Examples are pairs, so the counts of examples and labels cannot differ.
\<close>

definition new_sampler ::
  "example list \<Rightarrow> int \<Rightarrow> nat \<Rightarrow> nat \<Rightarrow> nat \<Rightarrow> 'r \<Rightarrow> sampler_error + 'r sampler" where
  "new_sampler exs B K vocab_size pad_id seed =
     (if B \<le> 0 \<or> vocab_size = 0 then Inl ConfigError
      else if bad_examples exs \<noteq> [] then Inl (DataError (bad_examples exs))
      else Inr \<lparr>examples = exs, batch_size = nat B, chunk_mult = K, pad = pad_id,
                shuffle_state = seed\<rparr>)"

text \<open>
  Modelled from the spec: restarting the sampler with a seed; the repository has no such
  operation of its own.
\<close>

definition reseed :: "'r \<Rightarrow> 'r sampler \<Rightarrow> 'r sampler" where
  "reseed seed s = s\<lparr>shuffle_state := seed\<rparr>"

text \<open>
  Modelled from the spec: cutting a list into consecutive pieces of size \<open>n\<close>, the last
  one possibly shorter (the chunks of size \<open>B * K\<close> and the batches of size \<open>B\<close>); this
  code is not in the repository.  The spec gives no piece for \<open>n = 0\<close>; the model then
  gives none.
\<close>

function slices :: "nat \<Rightarrow> 'a list \<Rightarrow> 'a list list" where
  "slices n xs = (if n = 0 \<or> xs = [] then [] else take n xs # slices n (drop n xs))"
  by pat_completeness auto
termination
  by (relation "measure (\<lambda>(n, xs). length xs)") auto

declare slices.simps [simp del]

text \<open>
  Modelled from the spec: putting a list in a shuffled order; the shuffle itself is left
  to the library and is not in the repository.  A shuffle takes its state and a number
  \<open>n\<close> and gives an order of the positions \<open>0, ..., n - 1\<close> and its next state;
  \<open>permute\<close> puts a list in that order.
\<close>

definition permute :: "'a list \<Rightarrow> nat list \<Rightarrow> 'a list" where
  "permute xs p = map ((!) xs) p"

text \<open>
  Modelled from the spec: what makes a function a shuffle (the random source itself is
  not in the repository): the order it gives holds every position once.
\<close>

definition valid_shuffle :: "('r \<Rightarrow> nat \<Rightarrow> nat list \<times> 'r) \<Rightarrow> bool" where
  "valid_shuffle sh \<longleftrightarrow> (\<forall>r n. mset (fst (sh r n)) = mset [0..<n])"

text \<open>
  Modelled from the spec: step 1 of the algorithm, absent from the repository: the
  examples, drawn in shuffled order, are cut into chunks of size \<open>B * K\<close>.
\<close>

definition pass_chunks ::
  "('r \<Rightarrow> nat \<Rightarrow> nat list \<times> 'r) \<Rightarrow> 'r sampler \<Rightarrow> example list list \<times> 'r" where
  "pass_chunks sh s =
     (case sh (shuffle_state s) (length (examples s)) of
        (p, r) \<Rightarrow> (slices (batch_size s * chunk_mult s) (permute (examples s) p), r))"

text \<open>
  Modelled from the spec: steps 2 and 3, absent from the repository: a chunk is sorted by
  length and the sorted chunk is sliced into batches of size \<open>B\<close>.
\<close>

definition chunk_batches :: "nat \<Rightarrow> example list \<Rightarrow> example list list" where
  "chunk_batches B c = slices B (sort_key text_len c)"

text \<open>
  Modelled from the spec: step 4, absent from the repository: the order of the batches
  of the whole pass is shuffled before they are yielded.
\<close>

definition pass_groups ::
  "('r \<Rightarrow> nat \<Rightarrow> nat list \<times> 'r) \<Rightarrow> 'r sampler \<Rightarrow> example list list \<times> 'r" where
  "pass_groups sh s =
     (case pass_chunks sh s of
        (cs, r1) \<Rightarrow>
          (let bs = concat (map (chunk_batches (batch_size s)) cs)
           in case sh r1 (length bs) of (p, r2) \<Rightarrow> (permute bs p, r2)))"

text \<open>
  Modelled from the spec: the batch the sampler hands out, which adds the original
  lengths of the examples to the token ids and labels the notebooks read; the class is
  not in the repository.
\<close>

record padded_batch = batch +
  lengths :: "nat list"

text \<open>
  Modelled from the spec: the maximum length within a batch (the padding code is not in
  the repository).
\<close>

definition max_len :: "example list \<Rightarrow> nat" where
  "max_len g = foldr max (map text_len g) 0"

text \<open>
  Modelled from the spec: padding one sequence on the right with \<open>PAD\<close> up to a length
  (the padding code is not in the repository).
\<close>

definition pad_to :: "nat \<Rightarrow> nat \<Rightarrow> nat list \<Rightarrow> nat list" where
  "pad_to m pad_id ts = ts @ replicate (m - length ts) pad_id"

text \<open>
  Modelled from the spec: the padding policy, whose code is not in the repository.
  Every sequence of a batch is padded on the right with \<open>PAD\<close> up to the longest sequence
  of the batch; labels are not padded; the original lengths are kept.
\<close>

definition collate :: "nat \<Rightarrow> example list \<Rightarrow> padded_batch" where
  "collate pad_id g =
     \<lparr>text_ids = map (\<lambda>x. pad_to (max_len g) pad_id (fst x)) g,
      label = map snd g,
      lengths = map text_len g\<rparr>"

text \<open>
  Modelled from the spec: one pass of the sampler, whose code is not in the repository.
  The lazy sequence of batches is the list of what it yields until it is exhausted; the
  sampler comes back with its shuffle state advanced and nothing else changed.
\<close>

definition sampler_pass ::
  "('r \<Rightarrow> nat \<Rightarrow> nat list \<times> 'r) \<Rightarrow> 'r sampler \<Rightarrow> padded_batch list \<times> 'r sampler" where
  "sampler_pass sh s =
     (case pass_groups sh s of
        (gs, r) \<Rightarrow> (map (collate (pad s)) gs, s\<lparr>shuffle_state := r\<rparr>))"

text \<open>
  Modelled from the spec: the size of a batch, the number of its examples (the batch
  class is not in the repository).
\<close>

definition batch_rows :: "padded_batch \<Rightarrow> nat" where
  "batch_rows b = length (text_ids b)"

text \<open>
  Modelled from the spec: the examples of a batch (the batch class is not in the
  repository), each sequence cut back to its original length and paired with its label.
\<close>

definition batch_examples :: "padded_batch \<Rightarrow> example list" where
  "batch_examples b = zip (map2 take (lengths b) (text_ids b)) (label b)"

text \<open>
  The sizes of the pieces of a list of length \<open>len\<close> cut into pieces of size \<open>n\<close>.
\<close>

definition sizes :: "nat \<Rightarrow> nat \<Rightarrow> nat list" where
  "sizes n len = replicate (len div n) n @ (if len mod n = 0 then [] else [len mod n])"

section \<open>Concrete inputs\<close>

text \<open>
  A small framework, two sets of layers, iterators and a state on which the loops can be
  run.  The recurrent layer of the first set gives a hidden state of one layer (as
  \<open>nn.RNN\<close> does in the first notebook), that of the second a hidden state of four (as
  the two-layer bidirectional \<open>nn.LSTM\<close> does in the second).
\<close>

definition toy_torch :: "(real, real, nat, nat) torch" where
  "toy_torch =
     \<lparr>criterion = (\<lambda>preds y. sum_list (map2 (\<lambda>a b. (a - b) * (a - b)) preds y)),
      backward = (\<lambda>m p r b g. g + 1),
      zero_grad = (\<lambda>g. 0),
      opt_step = (\<lambda>st p g. (p - g, Suc st)),
      sigmoid = (\<lambda>x. x / 4),
      round_t = (\<lambda>x. if 1 / 2 < x then 1 else 0)\<rparr>"

definition toy_layers :: "nat \<Rightarrow> (real, nat) layers" where
  "toy_layers n =
     \<lparr>embedding = (\<lambda>p x. Inr (map (map (\<lambda>i. [real i])) x)),
      recurrent = (\<lambda>m p r e. ((e, replicate n (map (\<lambda>sq. [p + sum_list (concat sq)]) e)), r)),
      dropout = (\<lambda>m r h. (h, Suc r)),
      linear_out = (\<lambda>p v. [sum_list v / real (length v)])\<rparr>"

definition toy_RNN :: "(real, nat) model" where
  "toy_RNN = RNN_forward (toy_layers 1)"

definition toy_LSTM :: "(real, nat) model" where
  "toy_LSTM = LSTM_forward (toy_layers 4)"

definition toy_iterator :: iterator where
  "toy_iterator =
     \<lparr>batches = [\<lparr>text_ids = [[1, 2], [0, 0]], label = [1, 0]\<rparr>,
                 \<lparr>text_ids = [[3]], label = [1]\<rparr>],
      iter_len = 2\<rparr>"

definition pairs_iterator :: iterator where
  "pairs_iterator =
     \<lparr>batches = [\<lparr>text_ids = [[1, 2], [0, 0]], label = [1, 0]\<rparr>,
                 \<lparr>text_ids = [[3], [1]], label = [1, 0]\<rparr>],
      iter_len = 2\<rparr>"

definition long_iterator :: iterator where
  "long_iterator = toy_iterator\<lparr>iter_len := 3\<rparr>"

definition single_iterator :: iterator where
  "single_iterator = \<lparr>batches = [\<lparr>text_ids = [[2, 3, 4]], label = [1]\<rparr>], iter_len = 1\<rparr>"

definition empty_iterator :: iterator where
  "empty_iterator = \<lparr>batches = [], iter_len = 0\<rparr>"

definition toy_session :: "(real, real, nat, nat) session" where
  "toy_session = \<lparr>params = 0, grads = 0, opt_state = 0, rng = 0, training = False\<rparr>"

text \<open>
  Ten examples with the lengths 3, 7, 2, 9, 4, 8, 1, 6, 5, 10, a sampler over them
  with \<open>B = 4\<close> and \<open>K = 3\<close>, and a shuffle that rotates the positions by its state.
\<close>

definition ex10 :: "example list" where
  "ex10 = map (\<lambda>n. (replicate n 7, n mod 2)) [3, 7, 2, 9, 4, 8, 1, 6, 5, 10]"

definition sampler10 :: "nat sampler" where
  "sampler10 = \<lparr>examples = ex10, batch_size = 4, chunk_mult = 3, pad = 1, shuffle_state = 2\<rparr>"

definition rot_shuffle :: "nat \<Rightarrow> nat \<Rightarrow> nat list \<times> nat" where
  "rot_shuffle r n = (rotate r [0..<n], Suc r)"

section \<open>Evaluation leaves the parameters alone\<close>

lemma eval_step_frame:
  "params (snd (eval_step T M s b)) = params s
   \<and> grads (snd (eval_step T M s b)) = grads s
   \<and> opt_state (snd (eval_step T M s b)) = opt_state s
   \<and> training (snd (eval_step T M s b)) = training s"
  by (simp add: eval_step_def Let_def split: prod.splits sum.splits)

lemma epoch_loop_eval_frame:
  "epoch_loop (eval_step T M) bs el ea s = (res, s') \<Longrightarrow>
   params s' = params s \<and> grads s' = grads s \<and> opt_state s' = opt_state s
   \<and> training s' = training s"
proof (induction bs arbitrary: el ea s)
  case Nil
  then show ?case by simp
next
  case (Cons b bs)
  obtain out s1 where st: "eval_step T M s b = (out, s1)"
    by (metis prod.exhaust)
  from eval_step_frame [of T M s b] st
  have fr: "params s1 = params s \<and> grads s1 = grads s \<and> opt_state s1 = opt_state s
            \<and> training s1 = training s"
    by simp
  show ?case
  proof (cases out)
    case (Inl e)
    with Cons.prems st have "s' = s1" by simp
    with fr show ?thesis by simp
  next
    case (Inr m)
    obtain l a where m: "m = (l, a)" by (metis prod.exhaust)
    from Cons.prems st Inr m
    have "epoch_loop (eval_step T M) bs (el + l) (ea + a) s1 = (res, s')"
      by simp
    from Cons.IH [OF this] fr show ?thesis by simp
  qed
qed

text \<open>
  C9.  \<open>evaluate\<close> leaves the parameters of the model unchanged: whatever the model,
  the iterator and the state before the call, the parameters after the call (the embedding
  weights are among them) are the parameters before it.  The same holds of the gradient
  buffers and of the state of the optimiser, and it holds too when the call ends in an
  error, be it of the body of the loop or of the division.  (The forward pass of the
  model reads the parameters; \<open>evaluate\<close> itself calls nothing that writes them.)
\<close>

theorem evaluate_params_unchanged:
  "params (snd (evaluate T M it s)) = params s
   \<and> grads (snd (evaluate T M it s)) = grads s
   \<and> opt_state (snd (evaluate T M it s)) = opt_state s"
proof -
  obtain res s' where
    run: "epoch_loop (eval_step T M) (batches it) 0 0 (s\<lparr>training := False\<rparr>) = (res, s')"
    by (metis prod.exhaust)
  have "snd (evaluate T M it s) = s'"
    by (simp add: evaluate_def run split: sum.splits prod.splits)
  with epoch_loop_eval_frame [OF run] show ?thesis
    by simp
qed

text \<open>
  On the small inputs: a call of \<open>train\<close> moves the parameter (two optimiser steps),
  a call of \<open>evaluate\<close> does not.
\<close>

lemma toy_train_moves_params:
  "params (snd (train toy_torch toy_RNN toy_iterator toy_session)) = - 2
   \<and> params (snd (evaluate toy_torch toy_RNN toy_iterator toy_session)) = 0"
  by (simp add: train_def evaluate_def toy_torch_def toy_RNN_def RNN_forward_def
        toy_layers_def toy_iterator_def toy_session_def train_step_def eval_step_def
        squeezed_def same_size_def binary_accuracy_def epoch_result_def)

section \<open>The shape of the output of the two models\<close>

text \<open>
  When the layers keep the shapes the framework gives them (a hidden state of one layer
  for \<open>RNN\<close>, of at least two for \<open>LSTM\<close>, each with one row per example; a dropout that
  keeps the rows; one output feature), \<open>RNN.forward\<close> gives a matrix with one column,
  whatever the size of the batch, and \<open>LSTM.forward\<close> gives a vector on a batch of one
  example, on which \<open>.squeeze(1)\<close> raises.
\<close>

lemma RNN_forward_squeezed:
  assumes "embedding L p inputs = Inr e"
    and "recurrent L m p r e = ((out, [h]), r')"
    and "h \<noteq> []"
    and "\<And>v. length (linear_out L p v) = 1"
  shows "squeezed (fst (RNN_forward L m p r inputs)) = Inr (T1 (concat (map (linear_out L p) h)))"
proof -
  have "list_all (\<lambda>r. length r = 1) (map (linear_out L p) h)"
    using assms(4) by (simp add: list_all_iff)
  then show ?thesis
    using assms(1,2,3) by (simp add: RNN_forward_def squeezed_def)
qed

lemma LSTM_forward_one_example:
  assumes "embedding L p inputs = Inr e"
    and "recurrent L m p r e = ((out, hidden), r1)"
    and "2 \<le> length hidden"
    and "hidden ! (length hidden - 2) = [a]"
    and "hidden ! (length hidden - 1) = [b]"
    and "dropout L m r1 [a @ b] = ([d], r2)"
  shows "fst (LSTM_forward L m p r inputs) = Inr (T1 (linear_out L p d))"
    and "squeezed (fst (LSTM_forward L m p r inputs)) = Inl DimensionOutOfRange"
proof -
  show 1: "fst (LSTM_forward L m p r inputs) = Inr (T1 (linear_out L p d))"
    using assms by (simp add: LSTM_forward_def cat1_def)
  show "squeezed (fst (LSTM_forward L m p r inputs)) = Inl DimensionOutOfRange"
    by (simp add: 1 squeezed_def)
qed

section \<open>The returned loss and accuracy are means over the batches\<close>

lemma train_step_metrics: "fst (train_step T M s b) = batch_metrics T M s b"
  by (simp add: train_step_def batch_metrics_def Let_def split: prod.splits sum.splits)

lemma eval_step_metrics: "fst (eval_step T M s b) = batch_metrics T M s b"
  by (simp add: eval_step_def batch_metrics_def Let_def split: prod.splits sum.splits)

lemma epoch_loop_outcome:
  assumes "\<And>s b. fst (step s b) = batch_metrics T M s b"
  shows "fst (epoch_loop step bs el ea s) =
           (case first_error (per_batch T M step s bs) of
              Some e \<Rightarrow> Inl e
            | None \<Rightarrow>
                Inr (el + sum_list (map fst (values_of (per_batch T M step s bs))),
                     ea + sum_list (map snd (values_of (per_batch T M step s bs)))))
         \<and> (first_error (per_batch T M step s bs) = None
              \<longrightarrow> length (values_of (per_batch T M step s bs)) = length bs)"
proof (induction bs arbitrary: el ea s)
  case Nil
  show ?case by simp
next
  case (Cons b bs)
  obtain out s1 where st: "step s b = (out, s1)"
    by (metis prod.exhaust)
  from assms [of s b] st have m: "batch_metrics T M s b = out"
    by simp
  show ?case
  proof (cases out)
    case (Inl e)
    with st m show ?thesis by simp
  next
    case (Inr v)
    obtain l a where v: "v = (l, a)" by (metis prod.exhaust)
    from Cons.IH [of "el + l" "ea + a" s1] st m Inr v show ?thesis
      by (simp add: add.assoc split: option.splits)
  qed
qed

lemma epoch_mean:
  assumes "\<And>s b. fst (step s b) = batch_metrics T M s b" and "n = length bs"
  shows "fst (case epoch_loop step bs 0 0 s of
                (Inl e, s') \<Rightarrow> (Inl e, s')
              | (Inr (el, ea), s') \<Rightarrow> (epoch_result el ea n, s')) =
         (case first_error (per_batch T M step s bs) of
            Some e \<Rightarrow> Inl e
          | None \<Rightarrow>
              if bs = [] then Inl ZeroDivisionError
              else Inr (mean (map fst (values_of (per_batch T M step s bs))),
                        mean (map snd (values_of (per_batch T M step s bs)))))"
proof -
  obtain res s' where run: "epoch_loop step bs 0 0 s = (res, s')"
    by (metis prod.exhaust)
  from epoch_loop_outcome [of step T M bs 0 0 s, OF assms(1)] run assms(2) show ?thesis
    by (auto simp: epoch_result_def mean_def split: option.splits sum.splits)
qed

text \<open>
  C10, as amended.  When \<open>len(iterator)\<close> is the number of batches a pass yields:
  if the body of the loop raises on no batch, \<open>train\<close> and \<open>evaluate\<close> each return the
  arithmetic mean of the losses of the batches and the arithmetic mean of their
  accuracies (the accumulated sum divided by the number of batches) when the pass yields
  at least one batch, and end in \<open>ZeroDivisionError\<close> when it yields none, the division at
  the end not being guarded; and an error raised in the body of the loop ends the call
  with that error.
\<close>

theorem train_evaluate_mean:
  assumes "iter_len it = length (batches it)"
  shows "fst (train T M it s) =
           (case first_error (per_batch T M (train_step T M) (s\<lparr>training := True\<rparr>) (batches it)) of
              Some e \<Rightarrow> Inl e
            | None \<Rightarrow>
                if batches it = [] then Inl ZeroDivisionError
                else Inr (mean (map fst (values_of
                            (per_batch T M (train_step T M) (s\<lparr>training := True\<rparr>) (batches it)))),
                          mean (map snd (values_of
                            (per_batch T M (train_step T M) (s\<lparr>training := True\<rparr>) (batches it))))))
       \<and> fst (evaluate T M it s) =
           (case first_error (per_batch T M (eval_step T M) (s\<lparr>training := False\<rparr>) (batches it)) of
              Some e \<Rightarrow> Inl e
            | None \<Rightarrow>
                if batches it = [] then Inl ZeroDivisionError
                else Inr (mean (map fst (values_of
                            (per_batch T M (eval_step T M) (s\<lparr>training := False\<rparr>) (batches it)))),
                          mean (map snd (values_of
                            (per_batch T M (eval_step T M) (s\<lparr>training := False\<rparr>) (batches it))))))"
  unfolding train_def evaluate_def
  by (simp only: epoch_mean [of "train_step T M" T M, OF train_step_metrics assms]
        epoch_mean [of "eval_step T M" T M, OF eval_step_metrics assms] simp_thms)

lemmas toy_defs =
  toy_torch_def toy_RNN_def toy_LSTM_def RNN_forward_def LSTM_forward_def cat1_def
  toy_layers_def toy_iterator_def toy_session_def train_step_def eval_step_def
  batch_metrics_def squeezed_def same_size_def binary_accuracy_def

lemma toy_per_batch_train:
  "per_batch toy_torch toy_RNN (train_step toy_torch toy_RNN) (toy_session\<lparr>training := True\<rparr>)
     (batches toy_iterator) = [Inr (4, 1), Inr (1, 0)]"
  by (simp add: toy_defs)

lemma toy_per_batch_eval:
  "per_batch toy_torch toy_RNN (eval_step toy_torch toy_RNN) (toy_session\<lparr>training := False\<rparr>)
     (batches toy_iterator) = [Inr (4, 1), Inr (4, 1)]"
  by (simp add: toy_defs)

lemma toy_per_batch_LSTM:
  "per_batch toy_torch toy_LSTM (train_step toy_torch toy_LSTM)
     (toy_session\<lparr>training := True\<rparr>) (batches toy_iterator)
     = [Inr (4, 1), Inl DimensionOutOfRange]"
  by (simp add: toy_defs)

theorem train_evaluate_mean_witness:
  "iter_len toy_iterator = length (batches toy_iterator)
   \<and> fst (train toy_torch toy_RNN toy_iterator toy_session) = Inr (5 / 2, 1 / 2)
   \<and> fst (evaluate toy_torch toy_RNN toy_iterator toy_session) = Inr (4, 1)
   \<and> fst (train toy_torch toy_LSTM toy_iterator toy_session) = Inl DimensionOutOfRange
   \<and> iter_len empty_iterator = length (batches empty_iterator)
   \<and> fst (train toy_torch toy_RNN empty_iterator toy_session) = Inl ZeroDivisionError
   \<and> fst (evaluate toy_torch toy_RNN empty_iterator toy_session) = Inl ZeroDivisionError"
proof -
  have len: "iter_len toy_iterator = length (batches toy_iterator)"
    by (simp add: toy_iterator_def)
  have ne: "batches toy_iterator \<noteq> []"
    by (simp add: toy_iterator_def)
  have len0: "iter_len empty_iterator = length (batches empty_iterator)"
    by (simp add: empty_iterator_def)
  have e: "batches empty_iterator = []"
    by (simp add: empty_iterator_def)
  from train_evaluate_mean [OF len, of toy_torch toy_RNN toy_session] ne
  have "fst (train toy_torch toy_RNN toy_iterator toy_session) = Inr (5 / 2, 1 / 2)"
    and "fst (evaluate toy_torch toy_RNN toy_iterator toy_session) = Inr (4, 1)"
    by (simp_all add: toy_per_batch_train toy_per_batch_eval mean_def)
  moreover from train_evaluate_mean [OF len, of toy_torch toy_LSTM toy_session]
  have "fst (train toy_torch toy_LSTM toy_iterator toy_session) = Inl DimensionOutOfRange"
    by (simp add: toy_per_batch_LSTM)
  moreover from train_evaluate_mean [OF len0, of toy_torch toy_RNN toy_session] e
  have "fst (train toy_torch toy_RNN empty_iterator toy_session) = Inl ZeroDivisionError"
    and "fst (evaluate toy_torch toy_RNN empty_iterator toy_session) = Inl ZeroDivisionError"
    by simp_all
  ultimately show ?thesis using len len0 by simp
qed

text \<open>
  Where the claim as it was stated fails.  First, the divisor is \<open>len(iterator)\<close>: on an
  iterator that yields two batches and reports a length of three, \<open>train\<close> returns the
  sums divided by three, which are not the means of the two losses 4 and 1 and the two
  accuracies 1 and 0.  Second, with the model of the second notebook an iterator that
  yields at least one batch, and whose length is the number of its batches, makes both
  functions raise when a batch holds one example: \<open>hidden.squeeze(0)\<close> in \<open>LSTM.forward\<close>
  then removes the batch dimension, against the comment beside it (the output is to be
  batch size by hidden size), and \<open>.squeeze(1)\<close> in the loop finds no dimension 1.
\<close>

theorem train_evaluate_mean_counterexample:
  "batches long_iterator \<noteq> []
   \<and> fst (train toy_torch toy_RNN long_iterator toy_session) = Inr (5 / 3, 1 / 3)
   \<and> per_batch toy_torch toy_RNN (train_step toy_torch toy_RNN)
        (toy_session\<lparr>training := True\<rparr>) (batches long_iterator) = [Inr (4, 1), Inr (1, 0)]
   \<and> mean [4, 1] = 5 / 2 \<and> mean [1, 0] = 1 / 2
   \<and> batches single_iterator \<noteq> []
   \<and> iter_len single_iterator = length (batches single_iterator)
   \<and> fst (train toy_torch toy_LSTM single_iterator toy_session) = Inl DimensionOutOfRange
   \<and> fst (evaluate toy_torch toy_LSTM single_iterator toy_session) = Inl DimensionOutOfRange"
  by (simp add: train_def evaluate_def toy_defs long_iterator_def single_iterator_def
        epoch_result_def mean_def)

section \<open>Slices, shuffles and the stages of a pass\<close>

lemma slices_Nil [simp]: "slices n [] = []"
  by (simp add: slices.simps)

lemma slices_step: "0 < n \<Longrightarrow> xs \<noteq> [] \<Longrightarrow> slices n xs = take n xs # slices n (drop n xs)"
  by (subst slices.simps) simp

lemma concat_slices: "0 < n \<Longrightarrow> concat (slices n xs) = xs"
proof (induction n xs rule: slices.induct)
  case (1 n xs)
  show ?case
  proof (cases "xs = []")
    case True
    then show ?thesis by simp
  next
    case False
    with 1 show ?thesis by (simp add: slices_step)
  qed
qed

lemma map_length_slices: "0 < n \<Longrightarrow> map length (slices n xs) = sizes n (length xs)"
proof (induction n xs rule: slices.induct)
  case (1 n xs)
  show ?case
  proof (cases "xs = []")
    case True
    then show ?thesis by (simp add: sizes_def)
  next
    case False
    note step = slices_step [OF "1.prems" False]
    have ih: "map length (slices n (drop n xs)) = sizes n (length xs - n)"
      using "1.IH" "1.prems" False by simp
    show ?thesis
    proof (cases "n \<le> length xs")
      case True
      then have d: "length xs div n = Suc ((length xs - n) div n)"
        and m: "length xs mod n = (length xs - n) mod n"
        using "1.prems" by (simp_all add: le_div_geq le_mod_geq)
      show ?thesis
        using True by (simp add: step ih sizes_def d m min_def)
    next
      case False
      with \<open>xs \<noteq> []\<close> show ?thesis
        by (simp add: step sizes_def min_def)
    qed
  qed
qed

lemma sizes_mult: "0 < B \<Longrightarrow> sizes B (B * K) = replicate K B"
  by (simp add: sizes_def)

lemma concat_replicate_replicate:
  "concat (replicate q (replicate K (B::nat))) = replicate (q * K) B"
  by (induction q) (simp_all add: replicate_add)

text \<open>
  Cutting into chunks of size \<open>B * K\<close> and each chunk into batches of size \<open>B\<close> gives
  batches of the sizes that cutting the whole into batches of size \<open>B\<close> gives.
\<close>

lemma concat_sizes:
  assumes "0 < B" "0 < K"
  shows "concat (map (sizes B) (sizes (B * K) N)) = sizes B N"
proof -
  let ?q = "N div (B * K)" and ?r = "N mod (B * K)"
  have full: "concat (map (sizes B) (replicate ?q (B * K))) = replicate (?q * K) B"
    using assms by (simp add: sizes_mult concat_replicate_replicate)
  have rmod: "?r mod B = N mod B"
    by (simp add: mod_mult2_eq)
  have e: "?q * (B * K) = ?q * K * B"
    by (simp add: mult.commute mult.left_commute)
  have "N div B = (?q * (B * K) + ?r) div B"
    by (simp only: div_mult_mod_eq)
  also have "\<dots> = (?q * K * B + ?r) div B"
    by (simp only: e)
  also have "\<dots> = ?q * K + ?r div B"
    using assms(1) by simp
  finally have rdiv: "?q * K + ?r div B = N div B"
    by simp
  have tail: "concat (map (sizes B) (if ?r = 0 then [] else [?r]))
      = replicate (?r div B) B @ (if N mod B = 0 then [] else [N mod B])"
    using rmod by (auto simp: sizes_def)
  have "concat (map (sizes B) (sizes (B * K) N))
      = replicate (?q * K) B @ replicate (?r div B) B @ (if N mod B = 0 then [] else [N mod B])"
    unfolding sizes_def [of "B * K" N] using full tail by simp
  also have "\<dots> = sizes B N"
    unfolding sizes_def [of B N] using rdiv by (simp add: replicate_add [symmetric])
  finally show ?thesis .
qed

lemma mset_permute:
  assumes "mset p = mset [0..<length xs]"
  shows "mset (permute xs p) = mset xs"
proof -
  have "mset (permute xs p) = image_mset ((!) xs) (mset p)"
    by (simp add: permute_def)
  also have "\<dots> = image_mset ((!) xs) (mset [0..<length xs])"
    by (simp only: assms)
  also have "\<dots> = mset (map ((!) xs) [0..<length xs])"
    by (simp only: mset_map)
  also have "\<dots> = mset xs"
    by (simp only: map_nth)
  finally show ?thesis .
qed

lemma mset_concat_cong:
  assumes "mset xss = mset yss"
  shows "mset (concat xss) = mset (concat yss)"
proof -
  have "mset (concat xss) = sum_mset (image_mset mset (mset xss))"
    by (simp add: mset_concat sum_mset_sum_list [symmetric])
  also have "\<dots> = sum_mset (image_mset mset (mset yss))"
    by (simp only: assms)
  also have "\<dots> = mset (concat yss)"
    by (simp add: mset_concat sum_mset_sum_list [symmetric])
  finally show ?thesis .
qed

lemma length_of_shuffle:
  assumes "valid_shuffle sh"
  shows "length (fst (sh r n)) = n"
proof -
  from assms have "mset (fst (sh r n)) = mset [0..<n]"
    by (simp add: valid_shuffle_def)
  then have "size (mset (fst (sh r n))) = size (mset [0..<n])"
    by (simp only:)
  then show ?thesis by (simp del: mset_upt)
qed

lemma mset_rotate: "mset (rotate r xs) = mset xs"
proof -
  let ?k = "r mod length xs"
  have "mset (rotate r xs) = mset (drop ?k xs) + mset (take ?k xs)"
    by (simp add: rotate_drop_take)
  also have "\<dots> = mset (take ?k xs @ drop ?k xs)"
    by (simp only: mset_append add.commute)
  also have "\<dots> = mset xs"
    by (simp only: append_take_drop_id)
  finally show ?thesis .
qed

lemma valid_rot_shuffle: "valid_shuffle rot_shuffle"
  by (simp add: valid_shuffle_def rot_shuffle_def mset_rotate del: mset_upt)

lemma concat_chunk_batches:
  assumes "0 < B"
  shows "mset (concat (concat (map (chunk_batches B) cs))) = mset (concat cs)"
proof (induction cs)
  case Nil
  then show ?case by simp
next
  case (Cons c cs)
  have "mset (concat (chunk_batches B c)) = mset c"
    by (simp add: chunk_batches_def concat_slices [OF assms])
  with Cons show ?case by simp
qed

lemma chunk_batches_sizes:
  assumes "0 < B"
  shows "map length (concat (map (chunk_batches B) cs)) = concat (map (sizes B) (map length cs))"
  by (induction cs) (simp_all add: chunk_batches_def map_length_slices [OF assms])

lemma pass_chunks_mset:
  assumes "valid_shuffle sh" "0 < batch_size s * chunk_mult s"
  shows "mset (concat (fst (pass_chunks sh s))) = mset (examples s)"
proof -
  obtain p r where sh: "sh (shuffle_state s) (length (examples s)) = (p, r)"
    by (metis prod.exhaust)
  from assms(1) have "mset p = mset [0..<length (examples s)]"
    unfolding valid_shuffle_def by (metis sh fst_conv)
  then have "mset (permute (examples s) p) = mset (examples s)"
    by (rule mset_permute)
  then show ?thesis
    by (simp add: pass_chunks_def sh concat_slices [OF assms(2)])
qed

lemma pass_chunks_sizes:
  assumes "valid_shuffle sh" "0 < batch_size s * chunk_mult s"
  shows "map length (fst (pass_chunks sh s))
       = sizes (batch_size s * chunk_mult s) (length (examples s))"
proof -
  obtain p r where sh: "sh (shuffle_state s) (length (examples s)) = (p, r)"
    by (metis prod.exhaust)
  have "length p = length (examples s)"
    using length_of_shuffle [OF assms(1), of "shuffle_state s" "length (examples s)"] sh
    by simp
  then show ?thesis
    by (simp add: pass_chunks_def sh map_length_slices [OF assms(2)] permute_def)
qed

lemma pass_groups_mset:
  assumes "valid_shuffle sh"
  shows "mset (fst (pass_groups sh s))
       = mset (concat (map (chunk_batches (batch_size s)) (fst (pass_chunks sh s))))"
proof -
  obtain cs r1 where pc: "pass_chunks sh s = (cs, r1)"
    by (metis prod.exhaust)
  let ?bs = "concat (map (chunk_batches (batch_size s)) cs)"
  obtain p r2 where sh: "sh r1 (length ?bs) = (p, r2)"
    by (metis prod.exhaust)
  from assms have "mset p = mset [0..<length ?bs]"
    unfolding valid_shuffle_def by (metis sh fst_conv)
  then have "mset (permute ?bs p) = mset ?bs"
    by (rule mset_permute)
  then show ?thesis
    by (simp add: pass_groups_def pc sh Let_def)
qed

lemma groups_coverage:
  assumes "valid_shuffle sh" "0 < batch_size s" "0 < chunk_mult s"
  shows "mset (concat (fst (pass_groups sh s))) = mset (examples s)"
proof -
  have "mset (concat (fst (pass_groups sh s)))
      = mset (concat (concat (map (chunk_batches (batch_size s)) (fst (pass_chunks sh s)))))"
    by (rule mset_concat_cong) (rule pass_groups_mset [OF assms(1)])
  also have "\<dots> = mset (concat (fst (pass_chunks sh s)))"
    by (rule concat_chunk_batches [OF assms(2)])
  also have "\<dots> = mset (examples s)"
    using assms by (intro pass_chunks_mset) simp_all
  finally show ?thesis .
qed

lemma groups_sizes:
  assumes "valid_shuffle sh" "0 < batch_size s" "0 < chunk_mult s"
  shows "mset (map length (fst (pass_groups sh s)))
       = mset (sizes (batch_size s) (length (examples s)))"
proof -
  let ?B = "batch_size s" and ?K = "chunk_mult s"
  have pos: "0 < ?B * ?K" using assms by simp
  have "mset (map length (fst (pass_groups sh s)))
      = image_mset length (mset (concat (map (chunk_batches ?B) (fst (pass_chunks sh s)))))"
    by (simp add: pass_groups_mset [OF assms(1)])
  also have "\<dots> = mset (map length (concat (map (chunk_batches ?B) (fst (pass_chunks sh s)))))"
    by simp
  also have "\<dots> = mset (concat (map (sizes ?B) (sizes (?B * ?K) (length (examples s)))))"
    by (simp only: chunk_batches_sizes [OF assms(2)] pass_chunks_sizes [OF assms(1) pos])
  also have "\<dots> = mset (sizes ?B (length (examples s)))"
    by (simp only: concat_sizes [OF assms(2,3)])
  finally show ?thesis .
qed

section \<open>From the groups of examples to the padded batches and back\<close>

lemma unpad_rows:
  "zip (map2 take (map text_len g) (map (\<lambda>x. pad_to m pad_id (fst x)) g)) (map snd g) = g"
  by (induction g) (simp_all add: text_len_def pad_to_def)

lemma batch_examples_collate: "batch_examples (collate pad_id g) = g"
  by (simp add: batch_examples_def collate_def unpad_rows)

lemma batch_rows_collate: "batch_rows (collate pad_id g) = length g"
  by (simp add: batch_rows_def collate_def)

lemma sampler_pass_batches:
  "fst (sampler_pass sh s) = map (collate (pad s)) (fst (pass_groups sh s))"
  by (simp add: sampler_pass_def split: prod.splits)

lemma batches_coverage:
  assumes "valid_shuffle sh" "0 < batch_size s" "0 < chunk_mult s"
  shows "mset (concat (map batch_examples (fst (sampler_pass sh s)))) = mset (examples s)"
proof -
  have "map batch_examples (fst (sampler_pass sh s)) = fst (pass_groups sh s)"
    by (simp add: sampler_pass_batches batch_examples_collate o_def)
  with groups_coverage [OF assms] show ?thesis by simp
qed

lemma batches_sizes:
  assumes "valid_shuffle sh" "0 < batch_size s" "0 < chunk_mult s"
  shows "mset (map batch_rows (fst (sampler_pass sh s)))
       = mset (sizes (batch_size s) (length (examples s)))"
proof -
  have "map batch_rows (fst (sampler_pass sh s)) = map length (fst (pass_groups sh s))"
    by (simp add: sampler_pass_batches batch_rows_collate o_def)
  with groups_sizes [OF assms] show ?thesis by simp
qed

section \<open>Construction succeeds on a well-formed configuration\<close>

lemma bad_examples_Nil:
  assumes "\<forall>x\<in>set exs. fst x \<noteq> []"
  shows "bad_examples exs = []"
  using assms by (auto simp: bad_examples_def text_len_def filter_empty_conv)

lemma new_sampler_ok:
  assumes "0 < B" "0 < vocab_size" "\<forall>x\<in>set exs. fst x \<noteq> []"
  shows "new_sampler exs B K vocab_size pad_id seed =
         Inr \<lparr>examples = exs, batch_size = nat B, chunk_mult = K, pad = pad_id,
              shuffle_state = seed\<rparr>"
  using assms by (simp add: new_sampler_def bad_examples_Nil)

lemma sampler10_built: "new_sampler ex10 4 3 100 1 (2::nat) = Inr sampler10"
proof -
  have "\<forall>x\<in>set ex10. fst x \<noteq> []"
    by (simp add: ex10_def)
  then show ?thesis
    by (simp add: new_sampler_ok sampler10_def)
qed

section \<open>Every example once in every pass\<close>

text \<open>
  C1.  For every set of well-formed examples and every batch size \<open>B > 0\<close> (with a
  multiplier \<open>K > 0\<close>, a non-empty vocabulary and a shuffle that permutes), the sampler
  is built, and in every pass, from whatever shuffle state it starts, the examples of
  all the batches yielded, taken together, are the input examples, each as often as the
  input holds it: none twice, none left out.
\<close>

theorem sampler_coverage:
  assumes "valid_shuffle sh" and "0 < B" and "0 < K" and "0 < vocab_size"
    and "\<forall>x\<in>set exs. fst x \<noteq> []"
  shows "\<exists>s. new_sampler exs B K vocab_size pad_id seed = Inr s
           \<and> (\<forall>r. mset (concat (map batch_examples (fst (sampler_pass sh (reseed r s)))))
                    = mset exs)"
proof -
  let ?s = "\<lparr>examples = exs, batch_size = nat B, chunk_mult = K, pad = pad_id,
             shuffle_state = seed\<rparr>"
  have built: "new_sampler exs B K vocab_size pad_id seed = Inr ?s"
    using assms(2,4,5) by (rule new_sampler_ok)
  have "mset (concat (map batch_examples (fst (sampler_pass sh (reseed r ?s))))) = mset exs"
    for r
    using batches_coverage [of sh "reseed r ?s"] assms(1,2,3)
    by (simp add: reseed_def)
  with built show ?thesis by blast
qed

theorem sampler_coverage_witness:
  "new_sampler ex10 4 3 100 1 (2::nat) = Inr sampler10
   \<and> mset (concat (map batch_examples (fst (sampler_pass rot_shuffle sampler10)))) = mset ex10
   \<and> mset (concat (map batch_examples (fst (sampler_pass rot_shuffle (reseed 7 sampler10)))))
       = mset ex10"
proof -
  have wf: "\<forall>x\<in>set ex10. fst x \<noteq> []"
    by (simp add: ex10_def)
  from sampler_coverage [OF valid_rot_shuffle _ _ _ wf, of 4 3 100 1 2]
  obtain s where s: "new_sampler ex10 4 3 100 1 (2::nat) = Inr s"
    and cov: "\<And>r. mset (concat (map batch_examples (fst (sampler_pass rot_shuffle (reseed r s)))))
                 = mset ex10"
    by auto
  from s sampler10_built have eq: "s = sampler10"
    by simp
  have "reseed 2 sampler10 = sampler10"
    by (simp add: reseed_def sampler10_def)
  with cov [of 2] cov [of 7] eq sampler10_built show ?thesis
    by simp
qed

section \<open>The number and the sizes of the batches of a pass\<close>

lemma length_sizes: "length (sizes B N) = N div B + (if N mod B = 0 then 0 else 1)"
  by (simp add: sizes_def)

lemma ceiling_div:
  assumes "0 < B"
  shows "\<lceil>real N / real B\<rceil> = int (N div B + (if N mod B = 0 then 0 else 1))"
proof (cases "N mod B = 0")
  case True
  then have "B dvd N" by (simp add: mod_eq_0_iff_dvd)
  then have "real N / real B = real (N div B)"
    by (simp add: real_of_nat_div)
  then show ?thesis using True by simp
next
  case False
  have lo: "real (N div B) < real N / real B"
  proof -
    have "N div B * B < N" using False assms
      by (metis div_mult_mod_eq less_add_same_cancel1 mod_greater_zero_iff_not_dvd
          dvd_eq_mod_eq_0)
    then have "real (N div B) * real B < real N"
      by (metis of_nat_less_iff of_nat_mult)
    then show ?thesis using assms by (simp add: pos_less_divide_eq)
  qed
  have hi: "real N / real B \<le> real (N div B) + 1"
  proof -
    have "N < (N div B + 1) * B" using assms
      by (metis Suc_eq_plus1 dividend_less_div_times mult.commute add.commute mult_Suc)
    then have "real N \<le> (real (N div B) + 1) * real B"
      by (metis less_imp_le of_nat_le_iff of_nat_mult of_nat_add of_nat_1)
    then show ?thesis using assms by (simp add: pos_divide_le_eq)
  qed
  have "\<lceil>real N / real B\<rceil> = int (N div B) + 1"
    using lo hi by (intro ceiling_unique) simp_all
  with False show ?thesis by simp
qed

lemma sizes_facts:
  assumes "0 < B" "mset ls = mset (sizes B N)"
  shows "int (length ls) = \<lceil>real N / real B\<rceil>"
    and "\<forall>l\<in>set ls. 0 < l \<and> l \<le> B"
    and "length (filter (\<lambda>l. l = B) ls) = N div B"
    and "length (filter (\<lambda>l. l \<noteq> B) ls) = (if N mod B = 0 then 0 else 1)"
    and "\<forall>l\<in>set ls. l \<noteq> B \<longrightarrow> l = N mod B"
    and "N = 0 \<longrightarrow> ls = []"
proof -
  have len: "length ls = length (sizes B N)"
    using assms(2) by (metis size_mset)
  show "int (length ls) = \<lceil>real N / real B\<rceil>"
    by (simp only: len length_sizes ceiling_div [OF assms(1)])
  have set: "set ls = set (sizes B N)"
    using assms(2) by (metis set_mset_mset)
  have lt: "N mod B < B" using assms(1) by simp
  show "\<forall>l\<in>set ls. 0 < l \<and> l \<le> B"
    unfolding set using assms(1) lt by (auto simp: sizes_def split: if_splits)
  show "\<forall>l\<in>set ls. l \<noteq> B \<longrightarrow> l = N mod B"
    unfolding set by (auto simp: sizes_def split: if_splits)
  have flt: "\<And>P. length (filter P ls) = length (filter P (sizes B N))"
    using assms(2) by (metis mset_filter size_mset)
  show "length (filter (\<lambda>l. l = B) ls) = N div B"
    unfolding flt using lt by (auto simp: sizes_def)
  show "length (filter (\<lambda>l. l \<noteq> B) ls) = (if N mod B = 0 then 0 else 1)"
    unfolding flt using lt by (auto simp: sizes_def)
  show "N = 0 \<longrightarrow> ls = []"
    using len by (auto simp: sizes_def)
qed

text \<open>
  C2.  For every set of \<open>N\<close> well-formed examples and every batch size \<open>B > 0\<close> (with
  \<open>K > 0\<close>, a non-empty vocabulary and a shuffle that permutes), the sampler is built,
  and every pass yields exactly \<open>\<lceil>N / B\<rceil>\<close> batches and then ends; every batch holds at
  least one and at most \<open>B\<close> examples; exactly \<open>N div B\<close> batches hold exactly \<open>B\<close>; the
  batches that do not are none when \<open>B\<close> divides \<open>N\<close> and one otherwise, and that one
  holds \<open>N mod B\<close> examples; and with \<open>N = 0\<close> the pass yields nothing.  Where in the pass
  the short batch comes is left to the shuffle of the batch order.
\<close>

theorem sampler_batch_sizes:
  assumes "valid_shuffle sh" and "0 < B" and "0 < K" and "0 < vocab_size"
    and "\<forall>x\<in>set exs. fst x \<noteq> []"
  shows "\<exists>s. new_sampler exs B K vocab_size pad_id seed = Inr s
           \<and> (\<forall>r. let bs = fst (sampler_pass sh (reseed r s)); N = length exs in
                  int (length bs) = \<lceil>real N / real_of_int B\<rceil>
                  \<and> (\<forall>b\<in>set bs. 0 < batch_rows b \<and> batch_rows b \<le> nat B)
                  \<and> length (filter (\<lambda>b. batch_rows b = nat B) bs) = N div nat B
                  \<and> length (filter (\<lambda>b. batch_rows b \<noteq> nat B) bs)
                      = (if N mod nat B = 0 then 0 else 1)
                  \<and> (\<forall>b\<in>set bs. batch_rows b \<noteq> nat B \<longrightarrow> batch_rows b = N mod nat B)
                  \<and> (N = 0 \<longrightarrow> bs = []))"
proof -
  let ?s = "\<lparr>examples = exs, batch_size = nat B, chunk_mult = K, pad = pad_id,
             shuffle_state = seed\<rparr>"
  let ?N = "length exs"
  have built: "new_sampler exs B K vocab_size pad_id seed = Inr ?s"
    using assms(2,4,5) by (rule new_sampler_ok)
  have pos: "0 < nat B" using assms(2) by simp
  have rB: "real (nat B) = real_of_int B" using assms(2) by simp
  have "let bs = fst (sampler_pass sh (reseed r ?s)); N = length exs in
          int (length bs) = \<lceil>real N / real_of_int B\<rceil>
          \<and> (\<forall>b\<in>set bs. 0 < batch_rows b \<and> batch_rows b \<le> nat B)
          \<and> length (filter (\<lambda>b. batch_rows b = nat B) bs) = N div nat B
          \<and> length (filter (\<lambda>b. batch_rows b \<noteq> nat B) bs)
              = (if N mod nat B = 0 then 0 else 1)
          \<and> (\<forall>b\<in>set bs. batch_rows b \<noteq> nat B \<longrightarrow> batch_rows b = N mod nat B)
          \<and> (N = 0 \<longrightarrow> bs = [])" for r
  proof -
    let ?bs = "fst (sampler_pass sh (reseed r ?s))"
    have m: "mset (map batch_rows ?bs) = mset (sizes (nat B) ?N)"
      using batches_sizes [of sh "reseed r ?s"] assms(1,2,3)
      by (simp add: reseed_def)
    note f = sizes_facts [OF pos m]
    have 1: "int (length ?bs) = \<lceil>real ?N / real_of_int B\<rceil>"
      using f(1) by (simp add: rB)
    have 2: "\<forall>b\<in>set ?bs. 0 < batch_rows b \<and> batch_rows b \<le> nat B"
      using f(2) by simp
    have 3: "length (filter (\<lambda>b. batch_rows b = nat B) ?bs) = ?N div nat B"
      using f(3) by (simp add: filter_map o_def)
    have 4: "length (filter (\<lambda>b. batch_rows b \<noteq> nat B) ?bs)
              = (if ?N mod nat B = 0 then 0 else 1)"
      using f(4) by (simp add: filter_map o_def)
    have 5: "\<forall>b\<in>set ?bs. batch_rows b \<noteq> nat B \<longrightarrow> batch_rows b = ?N mod nat B"
      using f(5) by simp
    have 6: "?N = 0 \<longrightarrow> ?bs = []"
      using f(6) by simp
    from 1 2 3 4 5 6 show ?thesis
      unfolding Let_def by blast
  qed
  with built show ?thesis by blast
qed

theorem sampler_batch_sizes_witness:
  "new_sampler ex10 4 3 100 1 (2::nat) = Inr sampler10
   \<and> length (fst (sampler_pass rot_shuffle (reseed 7 sampler10))) = 3
   \<and> length (filter (\<lambda>b. batch_rows b = 4) (fst (sampler_pass rot_shuffle (reseed 7 sampler10)))) = 2
   \<and> length (filter (\<lambda>b. batch_rows b \<noteq> 4) (fst (sampler_pass rot_shuffle (reseed 7 sampler10)))) = 1
   \<and> list_all (\<lambda>b. batch_rows b = 4 \<or> batch_rows b = 2)
        (fst (sampler_pass rot_shuffle (reseed 7 sampler10)))"
proof -
  have wf: "\<forall>x\<in>set ex10. fst x \<noteq> []"
    by (simp add: ex10_def)
  have n: "length ex10 = 10"
    by (simp add: ex10_def)
  have c: "\<lceil>(10::real) / 4\<rceil> = 3"
    by (simp add: ceiling_eq_iff)
  from sampler_batch_sizes [OF valid_rot_shuffle _ _ _ wf, of 4 3 100 1 2]
  obtain s where s: "new_sampler ex10 4 3 100 1 (2::nat) = Inr s"
    and all: "\<And>r. let bs = fst (sampler_pass rot_shuffle (reseed r s)); N = length ex10 in
                  int (length bs) = \<lceil>real N / real_of_int 4\<rceil>
                  \<and> (\<forall>b\<in>set bs. 0 < batch_rows b \<and> batch_rows b \<le> nat 4)
                  \<and> length (filter (\<lambda>b. batch_rows b = nat 4) bs) = N div nat 4
                  \<and> length (filter (\<lambda>b. batch_rows b \<noteq> nat 4) bs)
                      = (if N mod nat 4 = 0 then 0 else 1)
                  \<and> (\<forall>b\<in>set bs. batch_rows b \<noteq> nat 4 \<longrightarrow> batch_rows b = N mod nat 4)
                  \<and> (N = 0 \<longrightarrow> bs = [])"
    by auto
  from s sampler10_built have eq: "s = sampler10"
    by simp
  from all [of 7] sampler10_built show ?thesis
    unfolding eq Let_def n by (auto simp: c list_all_iff)
qed

text \<open>
  A pass run on the ten examples: the original lengths held by the three batches, in
  the order in which they are yielded.  Here the short batch is not the last one.
\<close>

lemma pass_on_ten_examples:
  "map lengths (fst (sampler_pass rot_shuffle (reseed 0 sampler10)))
     = [[5, 6, 7, 8], [9, 10], [1, 2, 3, 4]]"
  by (simp add: sampler_pass_def pass_groups_def pass_chunks_def chunk_batches_def
        rot_shuffle_def reseed_def sampler10_def ex10_def permute_def collate_def
        text_len_def slices_step)

end
